theory Spec2Isabelle
  imports Main "HOL-Library.Sublist"
begin

section \<open>Strings of the host language\<close>

text \<open>
  A text is a \<open>string\<close>; each \<open>char\<close> stands for the code unit of the same number, so the
  model covers texts whose code units are below 256. \<open>isWhiteSpace\<close> is the class that
  \<open>String.prototype.trim\<close> strips and that \<open>\s\<close> matches (white space and line
  terminators), cut to that range: tab, line feed, vertical tab, form feed, carriage
  return, space and no-break space.
\<close>

definition isWhiteSpace :: "char \<Rightarrow> bool" where
  "isWhiteSpace c \<longleftrightarrow>
     c \<in> set [CHR 0x09, CHR 0x0A, CHR 0x0B, CHR 0x0C, CHR 0x0D, CHR 0x20, CHR 0xA0]"

definition trim :: "string \<Rightarrow> string" where
  "trim s = rev (dropWhile isWhiteSpace (rev (dropWhile isWhiteSpace s)))"

text \<open>
  \<open>GetSubstitution\<close> of the language standard, for a pattern without capture groups:
  in the replacement text \<open>$$\<close> is a dollar sign, \<open>$&\<close> the matched text, \<open>$`\<close> the text
  before the match, \<open>$'\<close> the text after it; a dollar sign before anything else (a digit
  included, since no group exists) stands for itself.
\<close>

fun getSubstitution :: "string \<Rightarrow> string \<Rightarrow> string \<Rightarrow> string \<Rightarrow> string" where
  "getSubstitution matched pre post [] = []"
| "getSubstitution matched pre post [c] = [c]"
| "getSubstitution matched pre post (c # d # t) =
     (if c = CHR ''$'' \<and> d = CHR ''$'' then CHR ''$'' # getSubstitution matched pre post t
      else if c = CHR ''$'' \<and> d = CHR ''&'' then matched @ getSubstitution matched pre post t
      else if c = CHR ''$'' \<and> d = CHR 0x60 then pre @ getSubstitution matched pre post t
      else if c = CHR ''$'' \<and> d = CHR 0x27 then post @ getSubstitution matched pre post t
      else c # getSubstitution matched pre post (d # t))"

text \<open>
  \<open>indexOf pat s\<close> splits \<open>s\<close> at the first occurrence of \<open>pat\<close>: the text before it and the
  text after it; \<open>None\<close> when \<open>pat\<close> does not occur.
\<close>

fun indexOf :: "string \<Rightarrow> string \<Rightarrow> (string \<times> string) option" where
  "indexOf pat [] = (if pat = [] then Some ([], []) else None)"
| "indexOf pat (c # s) =
     (if prefix pat (c # s) then Some ([], drop (length pat) (c # s))
      else map_option (\<lambda>(pre, post). (c # pre, post)) (indexOf pat s))"

text \<open>
  \<open>String.prototype.replace\<close> with a string pattern: only the first occurrence is
  replaced, by the expansion of the replacement text; a text without the pattern is
  returned as it is.
\<close>

definition replace_string :: "string \<Rightarrow> string \<Rightarrow> string \<Rightarrow> string" where
  "replace_string s pat repl =
     (case indexOf pat s of
        None \<Rightarrow> s
      | Some (pre, post) \<Rightarrow> pre @ getSubstitution pat pre post repl @ post)"

section \<open>Regular expressions\<close>

text \<open>
  The regular expressions of the program are sequences of atoms over character classes:
  one character of a class, an optional character (\<open>?\<close>) and a greedy repetition (\<open>*\<close>;
  \<open>c+\<close> is \<open>c\<close> followed by \<open>c*\<close>). \<open>bt\<close> is the backtracking matcher of the language
  standard at one position: a greedy atom first tries to take one more character and
  gives it back when the rest of the pattern fails. It returns the piece of text each
  atom has taken, one piece for each atom, so that the first case of a repetition covers
  every success of the longer attempt.
\<close>

datatype atom = One "char \<Rightarrow> bool" | Opt "char \<Rightarrow> bool" | Star "char \<Rightarrow> bool"

fun bt :: "atom list \<Rightarrow> string \<Rightarrow> string list option" where
  "bt [] s = Some []"
| "bt (One p # re) [] = None"
| "bt (One p # re) (c # s) = (if p c then map_option (Cons [c]) (bt re s) else None)"
| "bt (Opt p # re) [] = map_option (Cons []) (bt re [])"
| "bt (Opt p # re) (c # s) =
     (if p c then
        (case bt re s of
           Some ps \<Rightarrow> Some ([c] # ps)
         | None \<Rightarrow> map_option (Cons []) (bt re (c # s)))
      else map_option (Cons []) (bt re (c # s)))"
| "bt (Star p # re) [] = map_option (Cons []) (bt re [])"
| "bt (Star p # re) (c # s) =
     (if p c then
        (case bt (Star p # re) s of
           Some (q # ps) \<Rightarrow> Some ((c # q) # ps)
         | _ \<Rightarrow> map_option (Cons []) (bt re (c # s)))
      else map_option (Cons []) (bt re (c # s)))"

text \<open>
  \<open>search\<close> is \<open>RegExp.prototype.exec\<close> from index 0: the first position, from the left,
  where the pattern matches; it returns the text before the match and the pieces.
\<close>

fun search :: "atom list \<Rightarrow> string \<Rightarrow> (string \<times> string list) option" where
  "search re [] = map_option (Pair []) (bt re [])"
| "search re (c # s) =
     (case bt re (c # s) of
        Some ps \<Rightarrow> Some ([], ps)
      | None \<Rightarrow> map_option (\<lambda>(pre, ps). (c # pre, ps)) (search re s))"

text \<open>
  \<open>String.prototype.replace\<close> with a global regular expression: every match, from the
  left and without overlap, is replaced by the expansion of the replacement text, where
  \<open>pre\<close> is the original text up to the match. After an empty match the scan moves on
  by one character. (Behind a match of \<open>n > 0\<close> characters at \<open>c # s\<close> the text that is
  left is \<open>drop (n - 1) s\<close>.)
\<close>

fun replace_global :: "atom list \<Rightarrow> string \<Rightarrow> string \<Rightarrow> string \<Rightarrow> string" where
  "replace_global re repl pre [] =
     (case bt re [] of
        None \<Rightarrow> []
      | Some ps \<Rightarrow> getSubstitution (concat ps) pre [] repl)"
| "replace_global re repl pre (c # s) =
     (case bt re (c # s) of
        None \<Rightarrow> c # replace_global re repl (pre @ [c]) s
      | Some ps \<Rightarrow>
          getSubstitution (concat ps) pre (drop (length (concat ps)) (c # s)) repl @
          (if concat ps = [] then c # replace_global re repl (pre @ [c]) s
           else replace_global re repl (pre @ concat ps)
                  (drop (length (concat ps) - 1) s)))"

definition literal :: "string \<Rightarrow> atom list" where
  "literal s = map (\<lambda>c. One (\<lambda>x. x = c)) s"

section \<open>Data model\<close>

text \<open>
  The settings, with the two name strategies \<open>"title"\<close> and \<open>"domain-date"\<close>, and the link
  that extraction returns; its field \<open>alias\<close> is written \<open>alias'\<close> here.
\<close>

datatype nameStrategy = Title | DomainDate

record PagurlSettings =
  template :: string
  vaultWideNoDuplicate :: bool
  nameStrategy :: nameStrategy
  folders :: "string list"

record ExtractedLink =
  fullMatch :: string
  alias' :: string
  url :: string

text \<open>The object that \<open>findExistingFile\<close> returns: \<open>{ name, folder }\<close>.\<close>

record ExistingFile =
  name :: string
  folder :: "string option"

text \<open>An error is an \<open>Error\<close> object with its message.\<close>

datatype error = Error string

fun message :: "error \<Rightarrow> string" where
  "message (Error m) = m"

definition NoActiveFile :: error where
  "NoActiveFile = Error ''No active file to determine its folder.''"

definition NoValidInput :: error where
  "NoValidInput = Error ''Select a valid text or Markdown link''"

section \<open>The host application\<close>

text \<open>
  The editor, as far as the program uses it: the selected text, the cursor (line and
  column) and the text of the document. \<open>getLine\<close> reads a line of the document; the
  cursor of an editor is on a line of its document, and for any other line number the
  model gives the empty text.
\<close>

record Editor =
  selection :: string
  cursor :: "nat \<times> nat"
  doc :: string

fun splitLines :: "string \<Rightarrow> string list" where
  "splitLines [] = [[]]"
| "splitLines (c # s) =
     (if c = CHR 0x0A then [] # splitLines s
      else (case splitLines s of [] \<Rightarrow> [[c]] | l # ls \<Rightarrow> (c # l) # ls))"

definition getSelection :: "Editor \<Rightarrow> string" where
  "getSelection ed = selection ed"

definition getCursor :: "Editor \<Rightarrow> nat \<times> nat" where
  "getCursor ed = cursor ed"

definition getLine :: "Editor \<Rightarrow> nat \<Rightarrow> string" where
  "getLine ed n = (let ls = splitLines (doc ed) in if n < length ls then ls ! n else [])"

definition getValue :: "Editor \<Rightarrow> string" where
  "getValue ed = doc ed"

definition setValue :: "Editor \<Rightarrow> string \<Rightarrow> Editor" where
  "setValue ed v = ed\<lparr>doc := v\<rparr>"

definition setCursor :: "Editor \<Rightarrow> nat \<times> nat \<Rightarrow> Editor" where
  "setCursor ed pos = ed\<lparr>cursor := pos\<rparr>"

text \<open>
  A value of a note's front matter, and a note of the vault: its \<open>basename\<close>, the path of
  its parent folder (\<open>file.parent?.path\<close>, \<open>None\<close> when it is undefined) and the front
  matter the metadata cache holds for it (\<open>getFileCache(file)?.frontmatter\<close>).
\<close>

datatype fmValue = FmString string | FmNumber int | FmBool bool | FmNull | FmList "fmValue list"

record TFile =
  basename :: string
  parent :: "string option"
  frontmatter :: "(string \<rightharpoonup> fmValue) option"

text \<open>
  The application: the active file, the Markdown files of the vault in the order of the
  file index, the files created (path and content) and the notices shown, both in order.
\<close>

record App =
  activeFile :: "TFile option"
  markdownFiles :: "TFile list"
  created :: "(string \<times> string) list"
  notices :: "string list"

text \<open>
  What the program takes from its platform during one invocation: \<open>hostname u\<close> is
  \<open>new URL(u).hostname\<close>, \<open>None\<close> when the constructor throws; \<open>today\<close> is
  \<open>moment().format("YYYY-MM-DD")\<close>; \<open>createFails path\<close> is the message of the error with
  which \<open>vault.create\<close> rejects \<open>path\<close>, \<open>None\<close> when it creates the file.
\<close>

record Host =
  hostname :: "string \<Rightarrow> string option"
  today :: string
  createFails :: "string \<Rightarrow> string option"

section \<open>Link extraction\<close>

text \<open>
  \<open>/\[([^\]]+)\]\(\s*<?(https?:\/\/[^\s>]+)>?\s*\)/i\<close>. With the flag \<open>i\<close> a letter of the
  pattern matches itself in either case. Group 1 is made of atoms 1 and 2, group 2 of the
  ten atoms from atom 7 on (counting from 0).
\<close>

definition isChar :: "char \<Rightarrow> char \<Rightarrow> bool" where
  "isChar c x \<longleftrightarrow> x = c"

definition letter :: "char \<Rightarrow> char \<Rightarrow> char \<Rightarrow> bool" where
  "letter l u x \<longleftrightarrow> x = l \<or> x = u"

definition notBracket :: "char \<Rightarrow> bool" where
  "notBracket x \<longleftrightarrow> x \<noteq> CHR '']''"

definition urlChar :: "char \<Rightarrow> bool" where
  "urlChar x \<longleftrightarrow> \<not> isWhiteSpace x \<and> x \<noteq> CHR ''>''"

definition mdLinkRegex :: "atom list" where
  "mdLinkRegex =
     [One (isChar CHR ''[''), One notBracket, Star notBracket, One (isChar CHR '']''),
      One (isChar CHR ''(''), Star isWhiteSpace, Opt (isChar CHR ''<''),
      One (letter CHR ''h'' CHR ''H''), One (letter CHR ''t'' CHR ''T''),
      One (letter CHR ''t'' CHR ''T''), One (letter CHR ''p'' CHR ''P''),
      Opt (letter CHR ''s'' CHR ''S''), One (isChar CHR '':''), One (isChar CHR ''/''),
      One (isChar CHR ''/''), One urlChar, Star urlChar,
      Opt (isChar CHR ''>''), Star isWhiteSpace, One (isChar CHR '')'')]"

definition group :: "string list \<Rightarrow> nat \<Rightarrow> nat \<Rightarrow> string" where
  "group ps i n = concat (take n (drop i ps))"

definition findMarkdownLink :: "string \<Rightarrow> ExtractedLink option" where
  "findMarkdownLink text =
     (case search mdLinkRegex text of
        None \<Rightarrow> None
      | Some (pre, ps) \<Rightarrow>
          Some \<lparr>fullMatch = concat ps, alias' = trim (group ps 1 2), url = trim (group ps 7 10)\<rparr>)"

definition extractMarkdownLink :: "Editor \<Rightarrow> ExtractedLink option" where
  "extractMarkdownLink ed =
     (let sel = getSelection ed;
          cursorPos = getCursor ed;
          lineContent = getLine ed (fst cursorPos)
      in findMarkdownLink (if sel \<noteq> [] then sel else lineContent))"

section \<open>Duplicate lookup\<close>

text \<open>\<open>frontmatter?.url === url\<close>: the field is a string and equal to \<open>url\<close>.\<close>

fun strictEquals :: "fmValue option \<Rightarrow> string \<Rightarrow> bool" where
  "strictEquals (Some (FmString v)) u = (v = u)"
| "strictEquals _ u = False"

definition findExistingFile :: "PagurlSettings \<Rightarrow> App \<Rightarrow> string \<Rightarrow> string \<Rightarrow> ExistingFile option" where
  "findExistingFile st a u dir =
     (case find (\<lambda>file. case frontmatter file of
                          None \<Rightarrow> False
                        | Some fm \<Rightarrow> strictEquals (fm ''url'') u)
             (filter (\<lambda>file. vaultWideNoDuplicate st \<or> parent file = Some dir)
                (markdownFiles a)) of
        None \<Rightarrow> None
      | Some file \<Rightarrow> Some \<lparr>name = basename file, folder = parent file\<rparr>)"

section \<open>Name generation\<close>

text \<open>\<open>sanitizeName\<close>: \<open>name.replace(/[\/\\#%&\{\}\|<>*?$!'":@]/g, "-")\<close>.\<close>

definition unsafeChars :: "char list" where
  "unsafeChars =
     [CHR ''/'', CHR 0x5C, CHR ''#'', CHR ''%'', CHR ''&'', CHR ''{'', CHR ''}'', CHR ''|'',
      CHR ''<'', CHR ''>'', CHR ''*'', CHR ''?'', CHR ''$'', CHR ''!'', CHR 0x27, CHR 0x22,
      CHR '':'', CHR ''@'']"

definition sanitizeName :: "string \<Rightarrow> string" where
  "sanitizeName nm = replace_global [One (\<lambda>c. c \<in> set unsafeChars)] ''-'' [] nm"

definition generateName :: "Host \<Rightarrow> PagurlSettings \<Rightarrow> ExtractedLink \<Rightarrow> string" where
  "generateName h st link =
     (let sanitizedAlias = sanitizeName (alias' link) in
      if url link = [] then sanitizedAlias
      else (case nameStrategy st of
              DomainDate \<Rightarrow>
                (case hostname h (url link) of
                   Some domain \<Rightarrow> domain @ ''-'' @ today h
                 | None \<Rightarrow> sanitizedAlias)
            | Title \<Rightarrow> sanitizedAlias))"

section \<open>Content generation\<close>

definition generateContent :: "PagurlSettings \<Rightarrow> ExtractedLink \<Rightarrow> string" where
  "generateContent st link =
     (let fm = ''---'' @ [CHR 0x0A] @
               (if url link \<noteq> [] then ''url: '' @ [CHR 0x22] @ url link @ [CHR 0x22, CHR 0x0A]
                else []) @
               ''aliases:'' @ [CHR 0x0A] @ ''  - '' @ alias' link @ [CHR 0x0A] @
               ''---'' @ [CHR 0x0A];
          content = replace_global (literal ''{{url}}'') (url link) []
                      (replace_global (literal ''{{alias}}'') (alias' link) [] (template st))
      in fm @ content)"

definition generateNote :: "Host \<Rightarrow> PagurlSettings \<Rightarrow> ExtractedLink \<Rightarrow> string \<times> string" where
  "generateNote h st link = (generateName h st link, generateContent st link)"

section \<open>Creating the note and rewriting the text\<close>

definition createFile :: "Host \<Rightarrow> string \<Rightarrow> string \<Rightarrow> string \<Rightarrow> App \<Rightarrow> error + App" where
  "createFile h nm content dir a =
     (let path = dir @ ''/'' @ nm @ ''.md'' in
      case createFails h path of
        Some m \<Rightarrow> Inl (Error m)
      | None \<Rightarrow> Inr (a\<lparr>created := created a @ [(path, content)]\<rparr>))"

definition replaceMarkdownLink :: "Editor \<Rightarrow> string \<Rightarrow> string \<Rightarrow> string \<Rightarrow> Editor" where
  "replaceMarkdownLink ed originalMatch nm al =
     (let cur = getCursor ed;
          content = getValue ed;
          newLink = ''[['' @ nm @ ''|'' @ (if al \<noteq> [] then al else nm) @ '']]'';
          newContent = replace_string content originalMatch newLink
      in setCursor (setValue ed newContent) cur)"

section \<open>The command\<close>

text \<open>
  \<open>callback\<close> in three steps, as the source has them: the target folder, the link, and
  the block under \<open>try\<close>. The first two throw outside that block (\<open>Inl\<close> is the error
  thrown to the caller); inside it only \<open>createFile\<close> can throw, and \<open>catch\<close> turns the
  error into a notice.
\<close>

definition callback_folder :: "App \<Rightarrow> string \<Rightarrow> error + string" where
  "callback_folder a dir =
     (if dir = ''current'' then
        (case activeFile a of
           None \<Rightarrow> Inl NoActiveFile
         | Some f \<Rightarrow> Inr (case parent f of None \<Rightarrow> dir | Some p \<Rightarrow> if p \<noteq> [] then p else dir))
      else Inr dir)"

definition callback_link :: "Editor \<Rightarrow> error + ExtractedLink" where
  "callback_link ed =
     (case extractMarkdownLink ed of
        Some link \<Rightarrow> Inr link
      | None \<Rightarrow>
          (let selectedText = trim (getSelection ed) in
           if selectedText = [] then Inl NoValidInput
           else Inr \<lparr>fullMatch = selectedText, alias' = selectedText, url = []\<rparr>))"

definition notice :: "App \<Rightarrow> string \<Rightarrow> App" where
  "notice a m = a\<lparr>notices := notices a @ [m]\<rparr>"

definition callback_linked ::
    "ExtractedLink \<Rightarrow> string \<Rightarrow> ExistingFile option \<Rightarrow> string \<Rightarrow> Editor \<times> App \<Rightarrow> Editor \<times> App" where
  "callback_linked link dir existingFile nm w =
     (if nm \<noteq> [] then
        (replaceMarkdownLink (fst w) (fullMatch link) nm (alias' link),
         notice (snd w)
           (''Pagurl: '' @ url link @ '' '' @
            (if existingFile \<noteq> None then ''-->'' else ''==>'') @ '' '' @
            (case existingFile of
               Some ex \<Rightarrow> (case folder ex of None \<Rightarrow> dir | Some p \<Rightarrow> if p \<noteq> [] then p else dir)
             | None \<Rightarrow> dir) @ ''/'' @ nm))
      else w)"

definition callback_try ::
    "Host \<Rightarrow> PagurlSettings \<Rightarrow> ExtractedLink \<Rightarrow> string \<Rightarrow> Editor \<times> App \<Rightarrow> Editor \<times> App" where
  "callback_try h st link dir w =
     (let existingFile = findExistingFile st (snd w) (url link) dir in
      case existingFile of
        Some ex \<Rightarrow> callback_linked link dir existingFile (name ex) w
      | None \<Rightarrow>
          (let note = generateNote h st link in
           case createFile h (fst note) (snd note) dir (snd w) of
             Inl e \<Rightarrow> (fst w, notice (snd w) (''Pagurl error: '' @ message e))
           | Inr a' \<Rightarrow> callback_linked link dir existingFile (fst note) (fst w, a')))"

definition callback ::
    "Host \<Rightarrow> PagurlSettings \<Rightarrow> Editor \<times> App \<Rightarrow> string \<Rightarrow> error + Editor \<times> App" where
  "callback h st w dir =
     (case callback_folder (snd w) dir of
        Inl e \<Rightarrow> Inl e
      | Inr dir' \<Rightarrow>
          (case callback_link (fst w) of
             Inl e \<Rightarrow> Inl e
           | Inr link \<Rightarrow> Inr (callback_try h st link dir' w)))"

section \<open>Notions used in the statements\<close>

text \<open>The \<open>url\<close> field of a note's front matter, when the note has front matter with one.\<close>

definition frontmatterUrl :: "TFile \<Rightarrow> fmValue option" where
  "frontmatterUrl file = (case frontmatter file of None \<Rightarrow> None | Some fm \<Rightarrow> fm ''url'')"

definition asExisting :: "TFile \<Rightarrow> ExistingFile" where
  "asExisting file = \<lparr>name = basename file, folder = parent file\<rparr>"

text \<open>The path at which \<open>createFile\<close> asks the vault for the new note.\<close>

definition notePath :: "string \<Rightarrow> string \<Rightarrow> string" where
  "notePath dir nm = dir @ ''/'' @ nm @ ''.md''"

text \<open>
  A platform for the concrete runs below: it knows the host of one address, the day is
  2025-01-15 and the vault accepts every path; and the settings of those runs.
\<close>

definition hostA :: Host where
  "hostA = \<lparr>hostname = (\<lambda>u. if u = ''https://example.com/x'' then Some ''example.com'' else None),
            today = ''2025-01-15'', createFails = (\<lambda>p. None)\<rparr>"

definition settingsA :: PagurlSettings where
  "settingsA = \<lparr>template = ''{{alias}}: {{url}}'', vaultWideNoDuplicate = False,
                nameStrategy = Title, folders = [''notes'']\<rparr>"

definition emptyApp :: App where
  "emptyApp = \<lparr>activeFile = None, markdownFiles = [], created = [], notices = []\<rparr>"

text \<open>
  Notes and editors of the concrete runs: a note in the folder \<open>notes\<close> whose front matter
  has an empty url, two notes with the same url in the folders \<open>archive\<close> and \<open>notes\<close>, an
  editor with the selection \<open> My idea \<close> and an editor without selection on a line
  without link.
\<close>

definition blankNote :: TFile where
  "blankNote = \<lparr>basename = ''untitled'', parent = Some ''notes'',
                frontmatter = Some [''url'' \<mapsto> FmString '''']\<rparr>"

definition archivedNote :: TFile where
  "archivedNote = \<lparr>basename = ''old'', parent = Some ''archive'',
                   frontmatter = Some [''url'' \<mapsto> FmString ''https://example.com/x'']\<rparr>"

definition exampleNote :: TFile where
  "exampleNote = \<lparr>basename = ''Example'', parent = Some ''notes'',
                  frontmatter = Some [''url'' \<mapsto> FmString ''https://example.com/x'']\<rparr>"

definition ideaEditor :: Editor where
  "ideaEditor = \<lparr>selection = '' My idea '', cursor = (0, 3), doc = ''An  My idea  here''\<rparr>"

definition plainEditor :: Editor where
  "plainEditor = \<lparr>selection = '''', cursor = (0, 0), doc = ''plain text''\<rparr>"

definition exampleLink :: ExtractedLink where
  "exampleLink = \<lparr>fullMatch = ''[Example](https://example.com/x)'', alias' = ''Example'',
                  url = ''https://example.com/x''\<rparr>"

definition exampleEditor :: Editor where
  "exampleEditor = \<lparr>selection = '''', cursor = (0, 4),
                    doc = ''See [Example](https://example.com/x).''\<rparr>"





section \<open>Sanitization\<close>

lemma replace_global_class:
  "replace_global [One p] ''-'' pre s = map (\<lambda>c. if p c then CHR ''-'' else c) s"
  by (induction s arbitrary: pre) auto

lemma sanitizeName_map:
  "sanitizeName s = map (\<lambda>c. if c \<in> set unsafeChars then CHR ''-'' else c) s"
  by (simp add: sanitizeName_def replace_global_class)

lemma hyphen_safe: "CHR ''-'' \<notin> set unsafeChars"
  by (simp add: unsafeChars_def)

text \<open>
  C9. \<open>sanitizeName\<close> replaces each of the eighteen characters
  \<open>/ \ # % & { } | < > * ? $ ! ' " : @\<close> by a hyphen and leaves every other character as it
  is; sanitizing a sanitized name changes nothing.
\<close>

theorem sanitizeName_idempotent:
  "sanitizeName (sanitizeName s) = sanitizeName s \<and>
   sanitizeName s = map (\<lambda>c. if c \<in> set unsafeChars then CHR ''-'' else c) s \<and>
   unsafeChars = ''/'' @ [CHR 0x5C] @ ''#%&{}|<>*?$!'' @ [CHR 0x27, CHR 0x22] @ '':@''"
proof -
  have "sanitizeName (sanitizeName s) = sanitizeName s"
    using hyphen_safe by (induction s) (auto simp: sanitizeName_map)
  moreover have "unsafeChars = ''/'' @ [CHR 0x5C] @ ''#%&{}|<>*?$!'' @ [CHR 0x27, CHR 0x22] @ '':@''"
    by (simp add: unsafeChars_def)
  ultimately show ?thesis
    using sanitizeName_map by blast
qed

section \<open>The matcher and what the atoms may take\<close>

lemma regex_classes:
  "isChar c x \<longleftrightarrow> x = c"
  "letter l u x \<longleftrightarrow> x = l \<or> x = u"
  "notBracket x \<longleftrightarrow> x \<noteq> CHR '']''"
  "urlChar x \<longleftrightarrow> \<not> isWhiteSpace x \<and> x \<noteq> CHR ''>''"
  by (simp_all add: isChar_def letter_def notBracket_def urlChar_def)











lemma bt_Star_giveback:
  "list_all p x \<Longrightarrow> p c \<Longrightarrow> bt re [] = None \<Longrightarrow> bt re [c] = Some r \<Longrightarrow>
     bt (Star p # re) (x @ [c]) = Some (x # r)"
  by (induction x) auto



























section \<open>Replacing the first occurrence\<close>

lemma indexOf_None: "indexOf pat s = None \<longleftrightarrow> \<not> sublist pat s"
  by (induction s) (auto simp: sublist_Cons_right split: prod.splits)

lemma indexOf_Some: "indexOf pat s = Some (pre, post) \<Longrightarrow> s = pre @ pat @ post"
  by (induction s arbitrary: pre) (auto simp: prefix_def split: if_splits prod.splits)

lemma indexOf_first:
  "indexOf pat s = Some (pre, post) \<Longrightarrow> pre' @ pat @ post' = s \<Longrightarrow> length pre \<le> length pre'"
proof (induction s arbitrary: pre pre')
  case Nil
  then show ?case by (auto split: if_splits)
next
  case (Cons c s)
  show ?case
  proof (cases "prefix pat (c # s)")
    case True
    with Cons.prems show ?thesis by simp
  next
    case False
    with Cons.prems obtain p where p: "indexOf pat s = Some (p, post)" "pre = c # p"
      by (auto split: prod.splits)
    have "pre' \<noteq> []"
    proof
      assume "pre' = []"
      with Cons.prems(2) have "c # s = pat @ post'" by simp
      then have "prefix pat (c # s)" by (rule prefixI)
      with False show False by simp
    qed
    with Cons.prems(2) obtain q where q: "pre' = c # q"
      by (cases pre') auto
    with Cons.prems(2) have "q @ pat @ post' = s" by simp
    from Cons.IH[OF p(1) this] p q show ?thesis by simp
  qed
qed

lemma getSubstitution_plain:
  "CHR ''$'' \<notin> set repl \<Longrightarrow> getSubstitution m pre post repl = repl"
  by (induction m pre post repl rule: getSubstitution.induct) auto

text \<open>
  Where neither the name nor the alias has a dollar sign, the first occurrence of the
  match becomes the link and the rest of the document and the cursor stay.
\<close>

lemma replaceMarkdownLink_plain:
  assumes "CHR ''$'' \<notin> set nm" and "CHR ''$'' \<notin> set al"
    and "indexOf originalMatch (doc ed) = Some (pre, post)"
  shows "replaceMarkdownLink ed originalMatch nm al =
           ed\<lparr>doc := pre @ ''[['' @ nm @ ''|'' @ (if al \<noteq> [] then al else nm) @ '']]'' @ post\<rparr>"
proof -
  have "CHR ''$'' \<notin> set (''[['' @ nm @ ''|'' @ (if al \<noteq> [] then al else nm) @ '']]'')"
    using assms(1,2) by simp
  then have "getSubstitution originalMatch pre post
               (''[['' @ nm @ ''|'' @ (if al \<noteq> [] then al else nm) @ '']]'')
             = ''[['' @ nm @ ''|'' @ (if al \<noteq> [] then al else nm) @ '']]''"
    by (rule getSubstitution_plain)
  with assms(3) show ?thesis
    by (simp add: replaceMarkdownLink_def replace_string_def getCursor_def getValue_def
        setValue_def setCursor_def)
qed

text \<open>
  C10. When \<open>fullMatch\<close> does not occur in the document, \<open>replaceMarkdownLink\<close> leaves the
  editor as it was: the text written back is the text read, the cursor is put back where
  it was, and the step returns (it has no error to raise).
\<close>

theorem replaceMarkdownLink_absent:
  "\<not> sublist originalMatch (doc ed) \<Longrightarrow>
   replaceMarkdownLink ed originalMatch nm al = ed \<and>
   doc (replaceMarkdownLink ed originalMatch nm al) = doc ed \<and>
   cursor (replaceMarkdownLink ed originalMatch nm al) = cursor ed"
  using indexOf_None[of originalMatch "doc ed"]
  by (simp add: replaceMarkdownLink_def replace_string_def getCursor_def getValue_def
      setValue_def setCursor_def)

theorem replaceMarkdownLink_absent_witness:
  "\<not> sublist ''[x](http://y.z)'' ''plain text'' \<and>
   replaceMarkdownLink \<lparr>selection = '''', cursor = (0, 3), doc = ''plain text''\<rparr>
       ''[x](http://y.z)'' ''x'' ''x''
     = \<lparr>selection = '''', cursor = (0, 3), doc = ''plain text''\<rparr>"
proof -
  have h: "\<not> sublist ''[x](http://y.z)''
             (doc \<lparr>selection = '''', cursor = (0, 3), doc = ''plain text''\<rparr>)"
    by (simp add: sublist_Cons_right)
  show ?thesis
    using h replaceMarkdownLink_absent[OF h, of "''x''" "''x''"] by simp
qed

text \<open>
  C4. The claim fails where the alias (or the name of a note found in the vault) has a
  dollar sign followed by \<open>$\<close>, \<open>&\<close>, a backquote or a quote: the document
  \<open>Read [Save $$ now](https://shop.test) today\<close>, with the alias \<open>Save $$ now\<close> and the
  generated name \<open>Save -- now\<close>, becomes \<open>Read [[Save -- now|Save $ now]] today\<close>, where
  the claim has \<open>[[Save -- now|Save $$ now]]\<close>; and with the alias \<open>a$&b\<close> the matched text
  is copied into the link.
\<close>

theorem replaceMarkdownLink_dollar:
  "replaceMarkdownLink
     \<lparr>selection = '''', cursor = (0, 7), doc = ''Read [Save $$ now](https://shop.test) today''\<rparr>
     ''[Save $$ now](https://shop.test)'' ''Save -- now'' ''Save $$ now''
   = \<lparr>selection = '''', cursor = (0, 7), doc = ''Read [[Save -- now|Save $ now]] today''\<rparr> \<and>
   doc (replaceMarkdownLink \<lparr>selection = '''', cursor = (0, 0), doc = ''[a$&b](http://x.y)''\<rparr>
          ''[a$&b](http://x.y)'' ''a-&b'' ''a$&b'')
   = ''[[a-&b|a[a$&b](http://x.y)b]]''"
  by (simp add: replaceMarkdownLink_def replace_string_def getCursor_def getValue_def
      setValue_def setCursor_def)

section \<open>Names and contents of new notes\<close>

text \<open>
  C7. The name of a new note: with an empty url the sanitized alias, whatever the
  strategy; with a url, under \<open>domain-date\<close>, the host name of the url, a hyphen and the
  date of the day when the url parses and the sanitized alias when it does not; under
  \<open>title\<close> the sanitized alias.
\<close>

theorem generateName_priority:
  "(url link = [] \<longrightarrow> generateName h st link = sanitizeName (alias' link)) \<and>
   (url link \<noteq> [] \<and> nameStrategy st = DomainDate \<and> hostname h (url link) = Some d \<longrightarrow>
      generateName h st link = d @ ''-'' @ today h) \<and>
   (nameStrategy st = DomainDate \<and> hostname h (url link) = None \<longrightarrow>
      generateName h st link = sanitizeName (alias' link)) \<and>
   (nameStrategy st = Title \<longrightarrow> generateName h st link = sanitizeName (alias' link))"
  by (auto simp: generateName_def Let_def)

theorem generateName_priority_witness:
  "generateName hostA (settingsA\<lparr>nameStrategy := DomainDate\<rparr>)
     \<lparr>fullMatch = ''Ex: a'', alias' = ''Ex: a'', url = ''''\<rparr> = ''Ex- a'' \<and>
   generateName hostA (settingsA\<lparr>nameStrategy := DomainDate\<rparr>)
     \<lparr>fullMatch = ''[Ex: a](https://example.com/x)'', alias' = ''Ex: a'',
      url = ''https://example.com/x''\<rparr> = ''example.com-2025-01-15'' \<and>
   generateName hostA (settingsA\<lparr>nameStrategy := DomainDate\<rparr>)
     \<lparr>fullMatch = ''[Ex: a](http://[)'', alias' = ''Ex: a'', url = ''http://[''\<rparr> = ''Ex- a'' \<and>
   generateName hostA settingsA
     \<lparr>fullMatch = ''[Ex: a](https://example.com/x)'', alias' = ''Ex: a'',
      url = ''https://example.com/x''\<rparr> = ''Ex- a''"
proof -
  have s: "sanitizeName ''Ex: a'' = ''Ex- a''"
    by (simp add: sanitizeName_map unsafeChars_def)
  have h2: "hostname hostA ''https://example.com/x'' = Some ''example.com''"
    and h3: "hostname hostA ''http://['' = None" and t: "today hostA = ''2025-01-15''"
    by (simp_all add: hostA_def)
  have n1: "nameStrategy (settingsA\<lparr>nameStrategy := DomainDate\<rparr>) = DomainDate"
    and n2: "nameStrategy settingsA = Title"
    by (simp_all add: settingsA_def)
  show ?thesis
    using generateName_priority[where link = "\<lparr>fullMatch = ''Ex: a'', alias' = ''Ex: a'', url = ''''\<rparr>"
        and h = hostA and st = "settingsA\<lparr>nameStrategy := DomainDate\<rparr>" and d = "''example.com''"]
      generateName_priority[where link = "\<lparr>fullMatch = ''[Ex: a](https://example.com/x)'',
          alias' = ''Ex: a'', url = ''https://example.com/x''\<rparr>"
        and h = hostA and st = "settingsA\<lparr>nameStrategy := DomainDate\<rparr>" and d = "''example.com''"]
      generateName_priority[where link = "\<lparr>fullMatch = ''[Ex: a](http://[)'', alias' = ''Ex: a'',
          url = ''http://[''\<rparr>"
        and h = hostA and st = "settingsA\<lparr>nameStrategy := DomainDate\<rparr>" and d = "''example.com''"]
      generateName_priority[where link = "\<lparr>fullMatch = ''[Ex: a](https://example.com/x)'',
          alias' = ''Ex: a'', url = ''https://example.com/x''\<rparr>"
        and h = hostA and st = settingsA and d = "''example.com''"]
    by (simp add: s h2 h3 t n1 n2)
qed

text \<open>
  The front matter of a new note, as the source writes it: the line \<open>url: "..."\<close> is there
  exactly when the url is not empty, and the list under \<open>aliases:\<close> has the alias as its
  one entry. The body is the template after the two replacements.
\<close>

lemma generateContent_frontmatter:
  "generateContent st link =
     ''---'' @ [CHR 0x0A] @
     (if url link = [] then [] else ''url: '' @ [CHR 0x22] @ url link @ [CHR 0x22, CHR 0x0A]) @
     ''aliases:'' @ [CHR 0x0A] @ ''  - '' @ alias' link @ [CHR 0x0A] @ ''---'' @ [CHR 0x0A] @
     replace_global (literal ''{{url}}'') (url link) []
       (replace_global (literal ''{{alias}}'') (alias' link) [] (template st))"
  by (simp add: generateContent_def)

text \<open>
  C8. The claim fails in the body of the note. The replacement text of each of the two
  replacements is expanded: for the link \<open>[Save $$ now](https://shop.test)\<close> and the
  template \<open>{{alias}}: {{url}}\<close> the body is \<open>Save $ now: https://shop.test\<close>, where the
  claim has \<open>Save $$ now: https://shop.test\<close>. The second replacement also works on what
  the first has written: with the alias \<open>{{url}}\<close> the body of the template \<open>{{alias}}\<close> is
  the url.
\<close>

theorem generateContent_dollar:
  "generateContent settingsA
     \<lparr>fullMatch = ''[Save $$ now](https://shop.test)'', alias' = ''Save $$ now'',
      url = ''https://shop.test''\<rparr>
   = ''---'' @ [CHR 0x0A] @ ''url: '' @ [CHR 0x22] @ ''https://shop.test'' @ [CHR 0x22, CHR 0x0A] @
     ''aliases:'' @ [CHR 0x0A] @ ''  - Save $$ now'' @ [CHR 0x0A] @ ''---'' @ [CHR 0x0A] @
     ''Save $ now: https://shop.test'' \<and>
   generateContent (settingsA\<lparr>template := ''{{alias}}''\<rparr>)
     \<lparr>fullMatch = ''[{{url}}](http://x.y)'', alias' = ''{{url}}'', url = ''http://x.y''\<rparr>
   = ''---'' @ [CHR 0x0A] @ ''url: '' @ [CHR 0x22] @ ''http://x.y'' @ [CHR 0x22, CHR 0x0A] @
     ''aliases:'' @ [CHR 0x0A] @ ''  - {{url}}'' @ [CHR 0x0A] @ ''---'' @ [CHR 0x0A] @
     ''http://x.y''"
  by (simp add: generateContent_def settingsA_def literal_def)

section \<open>The duplicate lookup\<close>

lemma strictEquals_iff: "strictEquals v u \<longleftrightarrow> v = Some (FmString u)"
  by (cases "(v, u)" rule: strictEquals.cases) auto

lemma find_filter: "find P (filter Q xs) = find (\<lambda>x. Q x \<and> P x) xs"
  by (induction xs) auto

lemma findExistingFile_find:
  "findExistingFile st a u dir =
     map_option asExisting
       (find (\<lambda>file. (vaultWideNoDuplicate st \<or> parent file = Some dir) \<and>
                      frontmatterUrl file = Some (FmString u)) (markdownFiles a))"
proof -
  have "(\<lambda>file. case frontmatter file of None \<Rightarrow> False | Some fm \<Rightarrow> strictEquals (fm ''url'') u)
        = (\<lambda>file. frontmatterUrl file = Some (FmString u))"
    by (auto simp: fun_eq_iff frontmatterUrl_def strictEquals_iff split: option.splits)
  then show ?thesis
    by (simp add: findExistingFile_def find_filter asExisting_def split: option.splits)
qed

lemma findExistingFile_None:
  "findExistingFile st a u dir = None \<longleftrightarrow>
     \<not> (\<exists>file \<in> set (markdownFiles a).
           (vaultWideNoDuplicate st \<or> parent file = Some dir) \<and>
           frontmatterUrl file = Some (FmString u))"
  by (auto simp: findExistingFile_find find_None_iff)

lemma callback_linked_created:
  "created (snd (callback_linked link dir e nm w)) = created (snd w)"
  by (simp add: callback_linked_def notice_def)

lemma callback_linked_editor:
  "fst (callback_linked link dir e nm w) =
     (if nm = [] then fst w else replaceMarkdownLink (fst w) (fullMatch link) nm (alias' link))"
  by (simp add: callback_linked_def)

lemma callback_try_existing:
  assumes "findExistingFile st a (url link) dir = Some ex"
  shows "callback_try h st link dir (ed, a) = callback_linked link dir (Some ex) (name ex) (ed, a)"
  using assms by (simp add: callback_try_def)

lemma callback_try_new:
  assumes "findExistingFile st a (url link) dir = None"
  shows "callback_try h st link dir (ed, a) =
           (case createFails h (notePath dir (generateName h st link)) of
              Some m \<Rightarrow> (ed, notice a (''Pagurl error: '' @ m))
            | None \<Rightarrow>
                callback_linked link dir None (generateName h st link)
                  (ed, a\<lparr>created := created a @
                     [(notePath dir (generateName h st link), generateContent st link)]\<rparr>))"
  using assms
  by (simp add: callback_try_def generateNote_def createFile_def notePath_def
      split: option.splits)

text \<open>
  C3. With the toggle off the lookup takes the first note, in the order of the index,
  whose parent folder is the target folder and whose front-matter url is the very string
  looked for; with the toggle on, the first note of the vault with that url; it finds
  nothing exactly when no such note is in scope. When a note is found, nothing is created
  and its name is the one written into the document (a note with an empty name leaves the
  document as it is). With the toggle off, when no note of the target folder has the url,
  the lookup finds nothing, whatever the other folders hold, and the new note is created
  at \<open>folder/name.md\<close> as soon as the vault accepts that path.
\<close>

theorem findExistingFile_scope:
  "(\<not> vaultWideNoDuplicate st \<longrightarrow>
      findExistingFile st a u dir =
        map_option asExisting
          (find (\<lambda>file. parent file = Some dir \<and> frontmatterUrl file = Some (FmString u))
             (markdownFiles a))) \<and>
   (vaultWideNoDuplicate st \<longrightarrow>
      findExistingFile st a u dir =
        map_option asExisting
          (find (\<lambda>file. frontmatterUrl file = Some (FmString u)) (markdownFiles a))) \<and>
   (findExistingFile st a u dir = None \<longleftrightarrow>
      \<not> (\<exists>file \<in> set (markdownFiles a).
            (vaultWideNoDuplicate st \<or> parent file = Some dir) \<and>
            frontmatterUrl file = Some (FmString u))) \<and>
   (findExistingFile st a (url link) dir = Some ex \<longrightarrow>
      created (snd (callback_try h st link dir (ed, a))) = created a \<and>
      fst (callback_try h st link dir (ed, a)) =
        (if name ex = [] then ed
         else replaceMarkdownLink ed (fullMatch link) (name ex) (alias' link))) \<and>
   (\<not> vaultWideNoDuplicate st \<and>
    (\<forall>file \<in> set (markdownFiles a).
       parent file = Some dir \<longrightarrow> frontmatterUrl file \<noteq> Some (FmString (url link))) \<and>
    createFails h (notePath dir (generateName h st link)) = None \<longrightarrow>
      findExistingFile st a (url link) dir = None \<and>
      created (snd (callback_try h st link dir (ed, a))) =
        created a @ [(notePath dir (generateName h st link), generateContent st link)])"
proof (intro conjI impI)
  assume "\<not> vaultWideNoDuplicate st"
  then show "findExistingFile st a u dir =
        map_option asExisting
          (find (\<lambda>file. parent file = Some dir \<and> frontmatterUrl file = Some (FmString u))
             (markdownFiles a))"
    by (simp add: findExistingFile_find)
next
  assume "vaultWideNoDuplicate st"
  then show "findExistingFile st a u dir =
        map_option asExisting
          (find (\<lambda>file. frontmatterUrl file = Some (FmString u)) (markdownFiles a))"
    by (simp add: findExistingFile_find)
next
  show "findExistingFile st a u dir = None \<longleftrightarrow>
      \<not> (\<exists>file \<in> set (markdownFiles a).
            (vaultWideNoDuplicate st \<or> parent file = Some dir) \<and>
            frontmatterUrl file = Some (FmString u))"
    by (rule findExistingFile_None)
next
  assume ex: "findExistingFile st a (url link) dir = Some ex"
  show "created (snd (callback_try h st link dir (ed, a))) = created a"
    by (simp add: callback_try_existing[OF ex] callback_linked_created)
  show "fst (callback_try h st link dir (ed, a)) =
        (if name ex = [] then ed
         else replaceMarkdownLink ed (fullMatch link) (name ex) (alias' link))"
    by (simp add: callback_try_existing[OF ex] callback_linked_editor)
next
  assume h: "\<not> vaultWideNoDuplicate st \<and>
    (\<forall>file \<in> set (markdownFiles a).
       parent file = Some dir \<longrightarrow> frontmatterUrl file \<noteq> Some (FmString (url link))) \<and>
    createFails h (notePath dir (generateName h st link)) = None"
  then show none: "findExistingFile st a (url link) dir = None"
    by (auto simp: findExistingFile_None)
  from h show "created (snd (callback_try h st link dir (ed, a))) =
        created a @ [(notePath dir (generateName h st link), generateContent st link)]"
    by (simp add: callback_try_new[OF none] callback_linked_created)
qed

lemma exampleNotes_url:
  "frontmatterUrl archivedNote = Some (FmString ''https://example.com/x'')"
  "frontmatterUrl exampleNote = Some (FmString ''https://example.com/x'')"
  "frontmatterUrl blankNote = Some (FmString '''')"
  "parent archivedNote = Some ''archive''" "parent exampleNote = Some ''notes''"
  "parent blankNote = Some ''notes''"
  "asExisting archivedNote = \<lparr>name = ''old'', folder = Some ''archive''\<rparr>"
  "asExisting exampleNote = \<lparr>name = ''Example'', folder = Some ''notes''\<rparr>"
  "asExisting blankNote = \<lparr>name = ''untitled'', folder = Some ''notes''\<rparr>"
  by (simp_all add: frontmatterUrl_def archivedNote_def exampleNote_def blankNote_def
      asExisting_def)

lemma exampleLink_fields:
  "url exampleLink = ''https://example.com/x''" "alias' exampleLink = ''Example''"
  "fullMatch exampleLink = ''[Example](https://example.com/x)''"
  by (simp_all add: exampleLink_def)

lemma exampleLink_note:
  "generateName hostA settingsA exampleLink = ''Example''"
  "generateContent settingsA exampleLink =
     ''---'' @ [CHR 0x0A] @ ''url: '' @ [CHR 0x22] @ ''https://example.com/x'' @
     [CHR 0x22, CHR 0x0A] @ ''aliases:'' @ [CHR 0x0A] @ ''  - Example'' @ [CHR 0x0A] @
     ''---'' @ [CHR 0x0A] @ ''Example: https://example.com/x''"
  by (simp_all add: generateName_def generateContent_def settingsA_def exampleLink_def
      sanitizeName_map unsafeChars_def literal_def)

lemma exampleEditor_replaced:
  "replaceMarkdownLink exampleEditor ''[Example](https://example.com/x)'' ''Example'' ''Example''
     = exampleEditor\<lparr>doc := ''See [[Example|Example]].''\<rparr>"
  by (simp add: replaceMarkdownLink_def replace_string_def getCursor_def getValue_def
      setValue_def setCursor_def exampleEditor_def)

theorem findExistingFile_scope_witness:
  "findExistingFile settingsA (emptyApp\<lparr>markdownFiles := [archivedNote, exampleNote]\<rparr>)
     ''https://example.com/x'' ''notes'' = Some \<lparr>name = ''Example'', folder = Some ''notes''\<rparr> \<and>
   created (snd (callback_try hostA settingsA exampleLink ''notes''
     (exampleEditor, emptyApp\<lparr>markdownFiles := [archivedNote, exampleNote]\<rparr>))) = [] \<and>
   fst (callback_try hostA settingsA exampleLink ''notes''
     (exampleEditor, emptyApp\<lparr>markdownFiles := [archivedNote, exampleNote]\<rparr>))
     = exampleEditor\<lparr>doc := ''See [[Example|Example]].''\<rparr> \<and>
   findExistingFile (settingsA\<lparr>vaultWideNoDuplicate := True\<rparr>)
     (emptyApp\<lparr>markdownFiles := [archivedNote, exampleNote]\<rparr>)
     ''https://example.com/x'' ''inbox'' = Some \<lparr>name = ''old'', folder = Some ''archive''\<rparr> \<and>
   findExistingFile settingsA (emptyApp\<lparr>markdownFiles := [archivedNote, exampleNote]\<rparr>)
     ''https://example.com/x'' ''inbox'' = None \<and>
   created (snd (callback_try hostA settingsA exampleLink ''inbox''
     (exampleEditor, emptyApp\<lparr>markdownFiles := [archivedNote, exampleNote]\<rparr>)))
     = [(''inbox/Example.md'',
         ''---'' @ [CHR 0x0A] @ ''url: '' @ [CHR 0x22] @ ''https://example.com/x'' @
         [CHR 0x22, CHR 0x0A] @ ''aliases:'' @ [CHR 0x0A] @ ''  - Example'' @ [CHR 0x0A] @
         ''---'' @ [CHR 0x0A] @ ''Example: https://example.com/x'')]"
proof -
  have st: "\<not> vaultWideNoDuplicate settingsA"
    "vaultWideNoDuplicate (settingsA\<lparr>vaultWideNoDuplicate := True\<rparr>)"
    by (simp_all add: settingsA_def)
  have app: "markdownFiles (emptyApp\<lparr>markdownFiles := [archivedNote, exampleNote]\<rparr>)
               = [archivedNote, exampleNote]"
    "created (emptyApp\<lparr>markdownFiles := [archivedNote, exampleNote]\<rparr>) = []"
    by (simp_all add: emptyApp_def)
  have host: "createFails hostA ''inbox/Example.md'' = None"
    "notePath ''inbox'' ''Example'' = ''inbox/Example.md''"
    by (simp_all add: hostA_def notePath_def)
  note same = findExistingFile_scope[where st = settingsA
      and a = "emptyApp\<lparr>markdownFiles := [archivedNote, exampleNote]\<rparr>"
      and u = "''https://example.com/x''" and dir = "''notes''" and link = exampleLink
      and h = hostA and ed = exampleEditor
      and ex = "\<lparr>name = ''Example'', folder = Some ''notes''\<rparr>"]
  note wide = findExistingFile_scope[where st = "settingsA\<lparr>vaultWideNoDuplicate := True\<rparr>"
      and a = "emptyApp\<lparr>markdownFiles := [archivedNote, exampleNote]\<rparr>"
      and u = "''https://example.com/x''" and dir = "''inbox''" and link = exampleLink
      and h = hostA and ed = exampleEditor
      and ex = "\<lparr>name = ''old'', folder = Some ''archive''\<rparr>"]
  note inbox = findExistingFile_scope[where st = settingsA
      and a = "emptyApp\<lparr>markdownFiles := [archivedNote, exampleNote]\<rparr>"
      and u = "''https://example.com/x''" and dir = "''inbox''" and link = exampleLink
      and h = hostA and ed = exampleEditor
      and ex = "\<lparr>name = ''old'', folder = Some ''archive''\<rparr>"]
  from same have found:
    "findExistingFile settingsA (emptyApp\<lparr>markdownFiles := [archivedNote, exampleNote]\<rparr>)
       ''https://example.com/x'' ''notes'' = Some \<lparr>name = ''Example'', folder = Some ''notes''\<rparr>"
    by (simp add: st app exampleNotes_url)
  from same found have reused:
    "created (snd (callback_try hostA settingsA exampleLink ''notes''
       (exampleEditor, emptyApp\<lparr>markdownFiles := [archivedNote, exampleNote]\<rparr>))) = []"
    "fst (callback_try hostA settingsA exampleLink ''notes''
       (exampleEditor, emptyApp\<lparr>markdownFiles := [archivedNote, exampleNote]\<rparr>))
       = exampleEditor\<lparr>doc := ''See [[Example|Example]].''\<rparr>"
    by (simp_all add: app exampleLink_fields exampleEditor_replaced)
  from wide have vault:
    "findExistingFile (settingsA\<lparr>vaultWideNoDuplicate := True\<rparr>)
       (emptyApp\<lparr>markdownFiles := [archivedNote, exampleNote]\<rparr>)
       ''https://example.com/x'' ''inbox'' = Some \<lparr>name = ''old'', folder = Some ''archive''\<rparr>"
    by (simp add: st app exampleNotes_url)
  from inbox have new:
    "findExistingFile settingsA (emptyApp\<lparr>markdownFiles := [archivedNote, exampleNote]\<rparr>)
       ''https://example.com/x'' ''inbox'' = None"
    "created (snd (callback_try hostA settingsA exampleLink ''inbox''
       (exampleEditor, emptyApp\<lparr>markdownFiles := [archivedNote, exampleNote]\<rparr>)))
     = [(''inbox/Example.md'',
         ''---'' @ [CHR 0x0A] @ ''url: '' @ [CHR 0x22] @ ''https://example.com/x'' @
         [CHR 0x22, CHR 0x0A] @ ''aliases:'' @ [CHR 0x0A] @ ''  - Example'' @ [CHR 0x0A] @
         ''---'' @ [CHR 0x0A] @ ''Example: https://example.com/x'')]"
    by (simp_all add: st app host exampleNotes_url exampleLink_fields exampleLink_note)
  from found reused vault new show ?thesis
    by simp
qed

section \<open>Plain-text selections\<close>

lemma findMarkdownLink_examples:
  "findMarkdownLink '' My idea '' = None"
  "findMarkdownLink ''An  My idea  here'' = None"
  "findMarkdownLink ''plain text'' = None"
  "findMarkdownLink [] = None"
  by (simp_all add: findMarkdownLink_def mdLinkRegex_def regex_classes)

lemma trim_examples: "trim '' My idea '' = ''My idea''" "trim [] = []"
  by (simp_all add: trim_def isWhiteSpace_def)

lemma ideaEditor_link:
  "callback_link ideaEditor = Inr \<lparr>fullMatch = ''My idea'', alias' = ''My idea'', url = ''''\<rparr>"
  by (simp add: callback_link_def extractMarkdownLink_def getSelection_def ideaEditor_def
      findMarkdownLink_examples trim_examples Let_def)

lemma ideaEditor_replaced:
  "replaceMarkdownLink ideaEditor ''My idea'' ''untitled'' ''My idea''
     = ideaEditor\<lparr>doc := ''An  [[untitled|My idea]]  here''\<rparr>"
  "replaceMarkdownLink ideaEditor ''My idea'' ''My idea'' ''My idea''
     = ideaEditor\<lparr>doc := ''An  [[My idea|My idea]]  here''\<rparr>"
  by (simp_all add: replaceMarkdownLink_def replace_string_def getCursor_def getValue_def
      setValue_def setCursor_def ideaEditor_def)

text \<open>
  C1, as the claim has it, fails: the lookup runs for an empty url as for any other, and
  a note whose front matter has the url \<open>""\<close> is found. With the selection \<open> My idea \<close> and
  such a note in the target folder, the command links the selection to that note and
  creates nothing.
\<close>

theorem callback_empty_url_found:
  "callback_link ideaEditor = Inr \<lparr>fullMatch = ''My idea'', alias' = ''My idea'', url = ''''\<rparr> \<and>
   findExistingFile settingsA (emptyApp\<lparr>markdownFiles := [blankNote]\<rparr>) '''' ''notes''
     = Some \<lparr>name = ''untitled'', folder = Some ''notes''\<rparr> \<and>
   callback hostA settingsA (ideaEditor, emptyApp\<lparr>markdownFiles := [blankNote]\<rparr>) ''notes''
     = Inr (ideaEditor\<lparr>doc := ''An  [[untitled|My idea]]  here''\<rparr>,
            emptyApp\<lparr>markdownFiles := [blankNote], created := [],
                     notices := [''Pagurl:  --> notes/untitled'']\<rparr>)"
proof -
  have found: "findExistingFile settingsA (emptyApp\<lparr>markdownFiles := [blankNote]\<rparr>) '''' ''notes''
     = Some \<lparr>name = ''untitled'', folder = Some ''notes''\<rparr>"
    by (simp add: findExistingFile_find emptyApp_def settingsA_def exampleNotes_url)
  have "callback hostA settingsA (ideaEditor, emptyApp\<lparr>markdownFiles := [blankNote]\<rparr>) ''notes''
     = Inr (callback_try hostA settingsA
              \<lparr>fullMatch = ''My idea'', alias' = ''My idea'', url = ''''\<rparr> ''notes''
              (ideaEditor, emptyApp\<lparr>markdownFiles := [blankNote]\<rparr>))"
    by (simp add: callback_def callback_folder_def ideaEditor_link)
  also have "callback_try hostA settingsA
              \<lparr>fullMatch = ''My idea'', alias' = ''My idea'', url = ''''\<rparr> ''notes''
              (ideaEditor, emptyApp\<lparr>markdownFiles := [blankNote]\<rparr>)
     = (ideaEditor\<lparr>doc := ''An  [[untitled|My idea]]  here''\<rparr>,
        emptyApp\<lparr>markdownFiles := [blankNote], created := [],
                 notices := [''Pagurl:  --> notes/untitled'']\<rparr>)"
    using found
    by (simp add: callback_try_def callback_linked_def ideaEditor_replaced notice_def
        emptyApp_def)
  finally show ?thesis
    using found ideaEditor_link by simp
qed

text \<open>
  C1, amended. For a link with an empty url the lookup runs with the empty string. When
  no note in scope (the target folder, or the vault with the toggle on) has a front-matter
  url equal to the empty string, no note is found and the command asks the vault for a new
  note at \<open>folder/name.md\<close>, the name being the sanitized alias: the note is created with
  the generated content when the vault accepts the path, and when it rejects it nothing
  is created and the error is shown as a notice.
\<close>

theorem callback_empty_url:
  assumes "url link = []"
    and "\<forall>file \<in> set (markdownFiles a).
           (vaultWideNoDuplicate st \<or> parent file = Some dir) \<longrightarrow>
           frontmatterUrl file \<noteq> Some (FmString [])"
  shows "findExistingFile st a (url link) dir = None \<and>
         (createFails h (notePath dir (sanitizeName (alias' link))) = None \<longrightarrow>
            created (snd (callback_try h st link dir (ed, a))) =
              created a @ [(notePath dir (sanitizeName (alias' link)), generateContent st link)]) \<and>
         (createFails h (notePath dir (sanitizeName (alias' link))) = Some m \<longrightarrow>
            callback_try h st link dir (ed, a) = (ed, notice a (''Pagurl error: '' @ m)))"
proof -
  from assms have none: "findExistingFile st a (url link) dir = None"
    by (auto simp: findExistingFile_None)
  from assms(1) have nm: "generateName h st link = sanitizeName (alias' link)"
    by (simp add: generateName_def)
  show ?thesis
    using none by (simp add: callback_try_new[OF none] nm callback_linked_created)
qed

theorem callback_empty_url_witness:
  "findExistingFile settingsA (emptyApp\<lparr>markdownFiles := [exampleNote]\<rparr>) [] ''notes'' = None \<and>
   created (snd (callback_try hostA settingsA
      \<lparr>fullMatch = ''My idea'', alias' = ''My idea'', url = ''''\<rparr> ''notes''
      (ideaEditor, emptyApp\<lparr>markdownFiles := [exampleNote]\<rparr>)))
   = [(''notes/My idea.md'',
       ''---'' @ [CHR 0x0A] @ ''aliases:'' @ [CHR 0x0A] @ ''  - My idea'' @ [CHR 0x0A] @
       ''---'' @ [CHR 0x0A] @ ''My idea: '')] \<and>
   callback_try (hostA\<lparr>createFails := (\<lambda>p. Some ''File already exists.'')\<rparr>) settingsA
      \<lparr>fullMatch = ''My idea'', alias' = ''My idea'', url = ''''\<rparr> ''notes''
      (ideaEditor, emptyApp\<lparr>markdownFiles := [exampleNote]\<rparr>)
   = (ideaEditor, emptyApp\<lparr>markdownFiles := [exampleNote],
                           notices := [''Pagurl error: File already exists.'']\<rparr>)"
proof -
  have a1: "url \<lparr>fullMatch = ''My idea'', alias' = ''My idea'', url = ''''\<rparr> = []"
    by simp
  have a2: "\<forall>file \<in> set (markdownFiles (emptyApp\<lparr>markdownFiles := [exampleNote]\<rparr>)).
           (vaultWideNoDuplicate settingsA \<or> parent file = Some ''notes'') \<longrightarrow>
           frontmatterUrl file \<noteq> Some (FmString [])"
    by (simp add: emptyApp_def exampleNotes_url)
  have s: "sanitizeName ''My idea'' = ''My idea''"
    by (simp add: sanitizeName_map unsafeChars_def)
  have c: "generateContent settingsA \<lparr>fullMatch = ''My idea'', alias' = ''My idea'', url = ''''\<rparr>
     = ''---'' @ [CHR 0x0A] @ ''aliases:'' @ [CHR 0x0A] @ ''  - My idea'' @ [CHR 0x0A] @
       ''---'' @ [CHR 0x0A] @ ''My idea: ''"
    by (simp add: generateContent_def settingsA_def literal_def)
  note accepted = callback_empty_url[OF a1 a2, where h = hostA and ed = ideaEditor]
  note rejected = callback_empty_url[OF a1 a2,
      where h = "hostA\<lparr>createFails := (\<lambda>p. Some ''File already exists.'')\<rparr>"
        and ed = ideaEditor and m = "''File already exists.''"]
  from accepted have r1:
    "findExistingFile settingsA (emptyApp\<lparr>markdownFiles := [exampleNote]\<rparr>) [] ''notes'' = None"
    by simp
  from accepted have r2: "created (snd (callback_try hostA settingsA
      \<lparr>fullMatch = ''My idea'', alias' = ''My idea'', url = ''''\<rparr> ''notes''
      (ideaEditor, emptyApp\<lparr>markdownFiles := [exampleNote]\<rparr>)))
   = [(''notes/My idea.md'',
       ''---'' @ [CHR 0x0A] @ ''aliases:'' @ [CHR 0x0A] @ ''  - My idea'' @ [CHR 0x0A] @
       ''---'' @ [CHR 0x0A] @ ''My idea: '')]"
    by (simp add: s c hostA_def notePath_def emptyApp_def)
  from rejected have r3: "callback_try (hostA\<lparr>createFails := (\<lambda>p. Some ''File already exists.'')\<rparr>)
      settingsA \<lparr>fullMatch = ''My idea'', alias' = ''My idea'', url = ''''\<rparr> ''notes''
      (ideaEditor, emptyApp\<lparr>markdownFiles := [exampleNote]\<rparr>)
   = (ideaEditor, emptyApp\<lparr>markdownFiles := [exampleNote],
                           notices := [''Pagurl error: File already exists.'']\<rparr>)"
    by (simp add: notice_def emptyApp_def)
  from r1 r2 r3 show ?thesis
    by simp
qed

lemma getLine_plainEditor: "getLine plainEditor (fst (cursor plainEditor)) = ''plain text''"
  by (simp add: getLine_def plainEditor_def)

lemma getLine_ideaEditor: "getLine ideaEditor (fst (cursor ideaEditor)) = ''An  My idea  here''"
  by (simp add: getLine_def ideaEditor_def)

lemma callback_folder_other: "dir \<noteq> ''current'' \<Longrightarrow> callback_folder a dir = Inr dir"
  by (simp add: callback_folder_def)

text \<open>
  C6, as the claim has it, fails for the command \<open>current\<close> when no file is open: the
  folder is resolved before the link is looked for, and the invocation fails with the
  error of the missing file, whatever the selection is.
\<close>

theorem callback_no_link_current:
  "findMarkdownLink (selection plainEditor) = None \<and>
   findMarkdownLink (getLine plainEditor (fst (cursor plainEditor))) = None \<and>
   trim (selection plainEditor) = [] \<and>
   callback hostA settingsA (plainEditor, emptyApp) ''current'' = Inl NoActiveFile \<and>
   NoActiveFile \<noteq> NoValidInput"
  by (simp add: getLine_plainEditor findMarkdownLink_examples callback_def callback_folder_def
      emptyApp_def NoActiveFile_def NoValidInput_def)
    (simp add: plainEditor_def findMarkdownLink_examples trim_examples)

text \<open>
  C6, amended. For an invocation whose target folder resolves (the command is not
  \<open>current\<close>, or a file is open), where neither the selection nor the current line has a
  Markdown link: when the trimmed selection is not empty, the link the command goes on
  with has the trimmed selection as \<open>fullMatch\<close> and as alias and the empty url; when it is
  empty the invocation fails with the error \<open>NoValidInput\<close>.
\<close>

theorem callback_no_link:
  assumes "findMarkdownLink (selection ed) = None"
    and "findMarkdownLink (getLine ed (fst (cursor ed))) = None"
    and "callback_folder a dir = Inr dir'"
  shows "(trim (selection ed) \<noteq> [] \<longrightarrow>
            callback_link ed =
              Inr \<lparr>fullMatch = trim (selection ed), alias' = trim (selection ed), url = []\<rparr> \<and>
            callback h st (ed, a) dir =
              Inr (callback_try h st
                     \<lparr>fullMatch = trim (selection ed), alias' = trim (selection ed), url = []\<rparr>
                     dir' (ed, a))) \<and>
         (trim (selection ed) = [] \<longrightarrow> callback h st (ed, a) dir = Inl NoValidInput)"
proof -
  from assms(1,2) have "extractMarkdownLink ed = None"
    by (simp add: extractMarkdownLink_def getSelection_def getCursor_def Let_def)
  then have "callback_link ed =
      (if trim (selection ed) = [] then Inl NoValidInput
       else Inr \<lparr>fullMatch = trim (selection ed), alias' = trim (selection ed), url = []\<rparr>)"
    by (simp add: callback_link_def getSelection_def Let_def)
  with assms(3) show ?thesis
    by (simp add: callback_def)
qed

theorem callback_no_link_witness:
  "callback_link ideaEditor = Inr \<lparr>fullMatch = ''My idea'', alias' = ''My idea'', url = []\<rparr> \<and>
   callback hostA settingsA (ideaEditor, emptyApp) ''notes'' =
     Inr (callback_try hostA settingsA
            \<lparr>fullMatch = ''My idea'', alias' = ''My idea'', url = []\<rparr> ''notes''
            (ideaEditor, emptyApp)) \<and>
   callback hostA settingsA (plainEditor, emptyApp) ''notes'' = Inl NoValidInput"
proof -
  have i1: "findMarkdownLink (selection ideaEditor) = None"
    and p1: "findMarkdownLink (selection plainEditor) = None"
    by (simp_all add: ideaEditor_def plainEditor_def findMarkdownLink_examples)
  have i2: "findMarkdownLink (getLine ideaEditor (fst (cursor ideaEditor))) = None"
    and p2: "findMarkdownLink (getLine plainEditor (fst (cursor plainEditor))) = None"
    by (simp_all add: getLine_ideaEditor getLine_plainEditor findMarkdownLink_examples)
  have f: "callback_folder emptyApp ''notes'' = Inr ''notes''"
    by (simp add: callback_folder_other)
  have t: "trim (selection ideaEditor) = ''My idea''" "trim (selection plainEditor) = []"
    by (simp_all add: ideaEditor_def plainEditor_def trim_examples)
  from callback_no_link[OF i1 i2 f, of hostA settingsA]
    callback_no_link[OF p1 p2 f, of hostA settingsA]
  show ?thesis
    by (simp add: t)
qed

section \<open>Errors of the command\<close>

text \<open>An error of \<open>createFile\<close> is caught: the command returns and shows it as a notice.\<close>

lemma callback_try_create_error:
  assumes "findExistingFile st a (url link) dir = None"
    and "createFails h (notePath dir (generateName h st link)) = Some m"
  shows "callback_try h st link dir (ed, a) = (ed, notice a (''Pagurl error: '' @ m))"
  using assms(2) by (simp add: callback_try_new[OF assms(1)])

lemma callback_current_no_file: "activeFile a = None \<Longrightarrow> callback h st (ed, a) ''current'' = Inl NoActiveFile"
  by (simp add: callback_def callback_folder_def)

text \<open>
  C2. The claim fails for the two errors it names. Both are thrown before the \<open>try\<close>
  block of \<open>callback\<close> begins, so nothing catches them: with no selection on a line
  without link the command \<open>notes\<close> ends by throwing \<open>NoValidInput\<close>, and the command
  \<open>current\<close> with no open file ends by throwing \<open>NoActiveFile\<close>; no notice is shown in
  either run, since a run that throws returns no state.
\<close>

theorem callback_throws:
  "callback hostA settingsA (plainEditor, emptyApp) ''notes'' = Inl NoValidInput \<and>
   callback hostA settingsA (plainEditor, emptyApp) ''current'' = Inl NoActiveFile \<and>
   message NoValidInput = ''Select a valid text or Markdown link'' \<and>
   message NoActiveFile = ''No active file to determine its folder.''"
proof -
  have "extractMarkdownLink plainEditor = None"
    by (simp add: extractMarkdownLink_def getSelection_def getCursor_def getLine_plainEditor
        findMarkdownLink_examples Let_def)
      (simp add: plainEditor_def)
  then have "callback_link plainEditor = Inl NoValidInput"
    by (simp add: callback_link_def getSelection_def Let_def plainEditor_def trim_examples)
  then show ?thesis
    by (simp add: callback_def callback_folder_def emptyApp_def NoValidInput_def
        NoActiveFile_def)
qed

section \<open>A run of the command\<close>

text \<open>
  The command \<open>notes\<close> on the line \<open>Read [Save $$ now](https://shop.test) today\<close>, with
  no selection and an empty vault: the note \<open>notes/Save -- now.md\<close> is created and the
  line rewritten; the dollar signs of the alias are halved in the body of the note and
  in the link.
\<close>

lemma callback_dollar_run:
  "callback hostA settingsA
     (\<lparr>selection = '''', cursor = (0, 7), doc = ''Read [Save $$ now](https://shop.test) today''\<rparr>,
      emptyApp) ''notes''
   = Inr (\<lparr>selection = '''', cursor = (0, 7), doc = ''Read [[Save -- now|Save $ now]] today''\<rparr>,
          emptyApp\<lparr>created :=
                     [(''notes/Save -- now.md'',
                       ''---'' @ [CHR 0x0A] @ ''url: '' @ [CHR 0x22] @ ''https://shop.test'' @
                       [CHR 0x22, CHR 0x0A] @ ''aliases:'' @ [CHR 0x0A] @ ''  - Save $$ now'' @
                       [CHR 0x0A] @ ''---'' @ [CHR 0x0A] @ ''Save $ now: https://shop.test'')],
                   notices := [''Pagurl: https://shop.test ==> notes/Save -- now'']\<rparr>)"
proof -
  let ?ed = "\<lparr>selection = '''', cursor = (0, 7),
              doc = ''Read [Save $$ now](https://shop.test) today''\<rparr>"
  let ?link = "\<lparr>fullMatch = ''[Save $$ now](https://shop.test)'', alias' = ''Save $$ now'',
                url = ''https://shop.test''\<rparr>"
  have "findMarkdownLink ''Read [Save $$ now](https://shop.test) today'' = Some ?link"
    by (simp add: findMarkdownLink_def mdLinkRegex_def group_def trim_def regex_classes
        isWhiteSpace_def)
  then have link: "callback_link ?ed = Inr ?link"
    by (simp add: callback_link_def extractMarkdownLink_def getSelection_def getCursor_def
        getLine_def)
  have nm: "generateName hostA settingsA ?link = ''Save -- now''"
    by (simp add: generateName_def settingsA_def sanitizeName_map unsafeChars_def)
  have none: "findExistingFile settingsA emptyApp (url ?link) ''notes'' = None"
    by (simp add: findExistingFile_def emptyApp_def)
  have "callback_try hostA settingsA ?link ''notes'' (?ed, emptyApp)
        = (\<lparr>selection = '''', cursor = (0, 7), doc = ''Read [[Save -- now|Save $ now]] today''\<rparr>,
           emptyApp\<lparr>created :=
                     [(''notes/Save -- now.md'',
                       ''---'' @ [CHR 0x0A] @ ''url: '' @ [CHR 0x22] @ ''https://shop.test'' @
                       [CHR 0x22, CHR 0x0A] @ ''aliases:'' @ [CHR 0x0A] @ ''  - Save $$ now'' @
                       [CHR 0x0A] @ ''---'' @ [CHR 0x0A] @ ''Save $ now: https://shop.test'')],
                   notices := [''Pagurl: https://shop.test ==> notes/Save -- now'']\<rparr>)"
    unfolding callback_try_new[OF none] nm
    by (simp add: hostA_def notePath_def callback_linked_def notice_def emptyApp_def
        generateContent_def settingsA_def literal_def replaceMarkdownLink_def
        replace_string_def getCursor_def getValue_def setValue_def setCursor_def)
  with link show ?thesis
    by (simp add: callback_def callback_folder_def)
qed

section \<open>Replacement texts without a dollar sign\<close>

lemma bt_literal:
  "bt (literal pat) s = (if prefix pat s then Some (map (\<lambda>c. [c]) pat) else None)"
proof (induction pat arbitrary: s)
  case Nil
  then show ?case by (simp add: literal_def)
next
  case (Cons c pat)
  then show ?case
    by (cases s) (auto simp: literal_def)
qed

text \<open>
  With a replacement text that has no dollar sign, the global replacement of a literal
  pattern goes through the text from the left and puts the replacement text for each
  occurrence it meets, going on behind the occurrence.
\<close>

lemma replace_global_literal_plain:
  assumes "pat \<noteq> []" and "CHR ''$'' \<notin> set v"
  shows "replace_global (literal pat) v pre [] = []"
    and "replace_global (literal pat) v pre (c # s) =
           (if prefix pat (c # s)
            then v @ replace_global (literal pat) v (pre @ pat) (drop (length pat) (c # s))
            else c # replace_global (literal pat) v (pre @ [c]) s)"
proof -
  show "replace_global (literal pat) v pre [] = []"
    using assms(1) by (simp add: bt_literal)
  have cc: "concat (map (\<lambda>c. [c]) pat) = pat"
    by (induction pat) auto
  have "drop (length pat - Suc 0) s = drop (length pat) (c # s)"
    using assms(1) by (cases pat) auto
  then show "replace_global (literal pat) v pre (c # s) =
           (if prefix pat (c # s)
            then v @ replace_global (literal pat) v (pre @ pat) (drop (length pat) (c # s))
            else c # replace_global (literal pat) v (pre @ [c]) s)"
    using assms by (simp add: bt_literal cc getSubstitution_plain)
qed

end
